theory Spec2Isabelle
  imports Main "HOL-Library.Multiset"
begin

section \<open>The links table (src/db/schema.ts)\<close>

text \<open>
  Timestamps are points of one clock, counted in milliseconds. A row of the table
  \<open>links\<close> has the six columns of the schema; \<open>id\<close> is an identity column, so the
  insert type \<open>NewLink\<close> has no id, and its two timestamps are optional because both
  columns carry \<open>defaultNow()\<close>. Strings are lists of characters, one per code unit.
\<close>

type_synonym timestamp = nat

record Link =
  id_link :: int
  userId :: string
  shortCode :: string
  url :: string
  createdAt :: timestamp
  updatedAt :: timestamp

record NewLink =
  userId_new :: string
  shortCode_new :: string
  url_new :: string
  createdAt_new :: "timestamp option"
  updatedAt_new :: "timestamp option"

text \<open>
  The database: the rows of \<open>links\<close> in storage order and the next value of the
  identity sequence behind \<open>id\<close>.
\<close>

record db =
  rows :: "Link list"
  nextId :: int

text \<open>
  The ids the actions receive are JavaScript numbers (\<open>id: number\<close>, checked by
  \<open>z.number()\<close> only): a whole number, or a number that is not whole, which is kept
  as the text JavaScript prints for it (\<open>5.5\<close>), the only thing the code ever does with
  it. The column \<open>id\<close> is \<open>integer\<close>: a statement that compares it with a number which is
  not whole, or is outside the 32-bit range, fails.
\<close>

datatype number = Whole int | Decimal string

fun int4 :: "number \<Rightarrow> bool" where
  "int4 (Whole n) = (- 2147483648 \<le> n \<and> n \<le> 2147483647)"
| "int4 (Decimal s) = False"

subsection \<open>How values print\<close>

text \<open>
  The text of a whole number (its decimal digits, as JavaScript prints whole numbers
  below \<open>10^21\<close>), of a number, and of a timestamp as \<open>Date.toISOString\<close> gives it
  (years up to 9999), which is how the ORM hands a timestamp to the driver.
\<close>

function showNat :: "nat \<Rightarrow> string" where
  "showNat n =
     (if n < 10 then [''0123456789'' ! n]
      else showNat (n div 10) @ [''0123456789'' ! (n mod 10)])"
  by pat_completeness auto
termination
  by (relation "measure (\<lambda>n. n)") auto

declare showNat.simps [simp del]

fun showNumber :: "number \<Rightarrow> string" where
  "showNumber (Whole n) = (if n < 0 then CHR ''-'' # showNat (nat (- n)) else showNat (nat n))"
| "showNumber (Decimal s) = s"

definition pad2 :: "nat \<Rightarrow> string" where
  "pad2 n = (if n < 10 then ''0'' @ showNat n else showNat n)"

definition pad3 :: "nat \<Rightarrow> string" where
  "pad3 n = (if n < 10 then ''00'' @ showNat n else if n < 100 then ''0'' @ showNat n
             else showNat n)"

definition pad4 :: "nat \<Rightarrow> string" where
  "pad4 n = (if n < 10 then ''000'' @ showNat n else if n < 100 then ''00'' @ showNat n
             else if n < 1000 then ''0'' @ showNat n else showNat n)"

definition toISOString :: "timestamp \<Rightarrow> string" where
  "toISOString t =
     (let z = t div 86400000 + 719468;
          era = z div 146097;
          doe = z mod 146097;
          yoe = (doe - doe div 1460 + doe div 36524 - doe div 146096) div 365;
          doy = doe - (365 * yoe + yoe div 4 - yoe div 100);
          mp = (5 * doy + 2) div 153;
          day = doy - (153 * mp + 2) div 5 + 1;
          month = (if mp < 10 then mp + 3 else mp - 9);
          year = yoe + era * 400 + (if month \<le> 2 then 1 else 0)
      in pad4 year @ ''-'' @ pad2 month @ ''-'' @ pad2 day @ ''T'' @
         pad2 (t div 3600000 mod 24) @ '':'' @ pad2 (t div 60000 mod 60) @ '':'' @
         pad2 (t div 1000 mod 60) @ ''.'' @ pad3 (t mod 1000) @ ''Z'')"

subsection \<open>What a statement fails with\<close>

text \<open>
  \<open>short_code\<close> is \<open>varchar(20)\<close> and \<open>unique()\<close>, \<open>id\<close> is \<open>integer\<close>: these are the three
  ways a statement of the data layer can be refused by the database. The ORM (Drizzle
  0.45.1+, docs/database-schema.md) does not pass the database's error on: it throws
  its own \<open>DrizzleQueryError\<close>, which keeps the database's error as \<open>cause\<close> and whose
  \<open>message\<close> is \<open>Failed query: \<close> followed by the statement, a line break,
  \<open>params: \<close> and the parameters joined by commas.
\<close>

datatype pgError = UniqueViolation | ValueTooLong | InvalidInteger

datatype dbError = DrizzleQueryError string "string list" pgError

fun joined :: "string \<Rightarrow> string list \<Rightarrow> string" where
  "joined sep [] = []"
| "joined sep [x] = x"
| "joined sep (x # y # ys) = x @ sep @ joined sep (y # ys)"

fun message :: "dbError \<Rightarrow> string" where
  "message (DrizzleQueryError query params cause) =
     ''Failed query: '' @ query @ [CHR 0x0A] @ ''params: '' @ joined '','' params"

declare message.simps [simp del]

text \<open>The four statements of the data layer, as the query builder writes them.\<close>

definition quoted :: "string \<Rightarrow> string" where
  "quoted s = CHR 0x22 # s @ [CHR 0x22]"

definition allColumns :: string where
  "allColumns = joined '', ''
     (map quoted [''id'', ''user_id'', ''short_code'', ''url'', ''created_at'', ''updated_at''])"

definition whereIdAndUser :: "string \<Rightarrow> string \<Rightarrow> string" where
  "whereIdAndUser p q =
     ''('' @ quoted ''links'' @ ''.'' @ quoted ''id'' @ '' = '' @ p @ '' and '' @
     quoted ''links'' @ ''.'' @ quoted ''user_id'' @ '' = '' @ q @ '')''"

definition selectSql :: string where
  "selectSql = ''select '' @ allColumns @ '' from '' @ quoted ''links'' @ '' where '' @
     whereIdAndUser ''$1'' ''$2''"

definition insertSql :: "timestamp option \<Rightarrow> timestamp option \<Rightarrow> string" where
  "insertSql c u =
     ''insert into '' @ quoted ''links'' @ '' ('' @ allColumns @ '') values (default, $1, $2, $3, '' @
     (case c of None \<Rightarrow> ''default'' | Some t \<Rightarrow> ''$4'') @ '', '' @
     (case u of None \<Rightarrow> ''default'' | Some t \<Rightarrow> (if c = None then ''$4'' else ''$5'')) @
     '') returning '' @ allColumns"

definition updateSql :: string where
  "updateSql = ''update '' @ quoted ''links'' @ '' set '' @ quoted ''short_code'' @ '' = $1, '' @
     quoted ''url'' @ '' = $2, '' @ quoted ''updated_at'' @ '' = $3 where '' @
     whereIdAndUser ''$4'' ''$5'' @ '' returning '' @ allColumns"

definition deleteSql :: string where
  "deleteSql = ''delete from '' @ quoted ''links'' @ '' where '' @ whereIdAndUser ''$1'' ''$2''"

section \<open>The data layer (src/data/links.ts)\<close>

text \<open>
  \<open>getUserLinks\<close>: select the rows of one user, \<open>orderBy(desc(links.updatedAt))\<close>.
  The order among rows of equal \<open>updatedAt\<close> is left open by the query; the model
  fixes one.
\<close>

definition getUserLinks :: "string \<Rightarrow> db \<Rightarrow> Link list" where
  "getUserLinks uid d = rev (sort_key updatedAt (filter (\<lambda>r. userId r = uid) (rows d)))"

text \<open>
  \<open>insertLink\<close>: one INSERT with RETURNING. The identity sequence hands out the id
  (and moves on even when the statement then fails), both timestamps default to the
  time of the statement, and the statement fails on a short code longer than the
  column or already present in the table.
\<close>

definition insertFails :: "NewLink \<Rightarrow> pgError \<Rightarrow> dbError" where
  "insertFails data cause =
     DrizzleQueryError (insertSql (createdAt_new data) (updatedAt_new data))
       ([userId_new data, shortCode_new data, url_new data] @
        (case createdAt_new data of None \<Rightarrow> [] | Some t \<Rightarrow> [toISOString t]) @
        (case updatedAt_new data of None \<Rightarrow> [] | Some t \<Rightarrow> [toISOString t]))
       cause"

definition insertLink :: "timestamp \<Rightarrow> NewLink \<Rightarrow> db \<Rightarrow> (dbError + Link) \<times> db" where
  "insertLink now data d =
     (let d' = d\<lparr>nextId := nextId d + 1\<rparr> in
      if length (shortCode_new data) > 20 then (Inl (insertFails data ValueTooLong), d')
      else if shortCode_new data \<in> set (map shortCode (rows d))
        then (Inl (insertFails data UniqueViolation), d')
      else
        let newLink = \<lparr>id_link = nextId d, userId = userId_new data,
                       shortCode = shortCode_new data, url = url_new data,
                       createdAt = (case createdAt_new data of None \<Rightarrow> now | Some t \<Rightarrow> t),
                       updatedAt = (case updatedAt_new data of None \<Rightarrow> now | Some t \<Rightarrow> t)\<rparr>
        in (Inr newLink, d'\<lparr>rows := rows d @ [newLink]\<rparr>))"

text \<open>
  The three statements \<open>updateLink\<close> and \<open>deleteLinkById\<close> are made of, each scoped by
  \<open>and(eq(links.id, id), eq(links.userId, userId))\<close>, and each refused when the id is
  not one the column can hold.
\<close>

definition owned :: "number \<Rightarrow> string \<Rightarrow> Link \<Rightarrow> bool" where
  "owned i uid r = (Whole (id_link r) = i \<and> userId r = uid)"

definition selectByIdAndUser :: "number \<Rightarrow> string \<Rightarrow> db \<Rightarrow> dbError + Link list" where
  "selectByIdAndUser i uid d =
     (if \<not> int4 i then Inl (DrizzleQueryError selectSql [showNumber i, uid] InvalidInteger)
      else Inr (filter (owned i uid) (rows d)))"

definition setFields :: "timestamp \<Rightarrow> string \<Rightarrow> string \<Rightarrow> Link \<Rightarrow> Link" where
  "setFields now newUrl newCode r = r\<lparr>url := newUrl, shortCode := newCode, updatedAt := now\<rparr>"

definition updateFails ::
  "timestamp \<Rightarrow> number \<Rightarrow> string \<Rightarrow> string \<Rightarrow> string \<Rightarrow> pgError \<Rightarrow> dbError" where
  "updateFails now i uid newUrl newCode cause =
     DrizzleQueryError updateSql [newCode, newUrl, toISOString now, showNumber i, uid] cause"

definition updateWhere ::
  "timestamp \<Rightarrow> number \<Rightarrow> string \<Rightarrow> string \<Rightarrow> string \<Rightarrow> db \<Rightarrow> (dbError + Link list) \<times> db" where
  "updateWhere now i uid newUrl newCode d =
     (let matched = filter (owned i uid) (rows d);
          others = filter (\<lambda>r. \<not> owned i uid r) (rows d)
      in if \<not> int4 i then (Inl (updateFails now i uid newUrl newCode InvalidInteger), d)
         else if matched = [] then (Inr [], d)
         else if length newCode > 20
           then (Inl (updateFails now i uid newUrl newCode ValueTooLong), d)
         else if newCode \<in> set (map shortCode others) \<or> length matched > 1
           then (Inl (updateFails now i uid newUrl newCode UniqueViolation), d)
         else (Inr (map (setFields now newUrl newCode) matched),
               d\<lparr>rows := map (\<lambda>r. if owned i uid r then setFields now newUrl newCode r else r)
                             (rows d)\<rparr>))"

definition deleteWhere :: "number \<Rightarrow> string \<Rightarrow> db \<Rightarrow> (dbError + unit) \<times> db" where
  "deleteWhere i uid d =
     (if \<not> int4 i then (Inl (DrizzleQueryError deleteSql [showNumber i, uid] InvalidInteger), d)
      else (Inr (), d\<lparr>rows := filter (\<lambda>r. \<not> owned i uid r) (rows d)\<rparr>))"

text \<open>
  \<open>updateLink\<close> first selects the row (\<open>// Verify ownership first\<close>), returns null
  when there is none, and otherwise issues the update and returns the first row of
  its RETURNING list. The two statements are two round trips to the database:
  \<open>between\<close> is what other sessions do to the table after the select and before the
  update. Called alone, nothing happens in between. What a statement throws leaves the
  function.
\<close>

definition updateLink_between ::
  "(db \<Rightarrow> db) \<Rightarrow> timestamp \<Rightarrow> number \<Rightarrow> string \<Rightarrow> string \<Rightarrow> string \<Rightarrow> db
     \<Rightarrow> (dbError + Link option) \<times> db" where
  "updateLink_between between now i uid newUrl newCode d =
     (case selectByIdAndUser i uid d of
        Inl e \<Rightarrow> (Inl e, d)
      | Inr [] \<Rightarrow> (Inr None, d)
      | Inr (existing # _) \<Rightarrow>
          (case updateWhere now i uid newUrl newCode (between d) of
             (Inl e, d') \<Rightarrow> (Inl e, d')
           | (Inr [], d') \<Rightarrow> (Inr None, d')
           | (Inr (updatedLink # _), d') \<Rightarrow> (Inr (Some updatedLink), d')))"

definition updateLink ::
  "timestamp \<Rightarrow> number \<Rightarrow> string \<Rightarrow> string \<Rightarrow> string \<Rightarrow> db \<Rightarrow> (dbError + Link option) \<times> db" where
  "updateLink = updateLink_between (\<lambda>d. d)"

text \<open>
  \<open>deleteLinkById\<close>: the same select (\<open>// Check ownership\<close>), false when it finds
  nothing, otherwise the delete and true.
\<close>

definition deleteLinkById_between ::
  "(db \<Rightarrow> db) \<Rightarrow> number \<Rightarrow> string \<Rightarrow> db \<Rightarrow> (dbError + bool) \<times> db" where
  "deleteLinkById_between between i uid d =
     (case selectByIdAndUser i uid d of
        Inl e \<Rightarrow> (Inl e, d)
      | Inr [] \<Rightarrow> (Inr False, d)
      | Inr (existing # _) \<Rightarrow>
          (case deleteWhere i uid (between d) of
             (Inl e, d') \<Rightarrow> (Inl e, d')
           | (Inr _, d') \<Rightarrow> (Inr True, d')))"

definition deleteLinkById :: "number \<Rightarrow> string \<Rightarrow> db \<Rightarrow> (dbError + bool) \<times> db" where
  "deleteLinkById = deleteLinkById_between (\<lambda>d. d)"

section \<open>The server actions (src/app/page.tsx)\<close>

subsection \<open>The schemas\<close>

text \<open>
  The character class \<open>[a-zA-Z0-9-_]\<close> by its three ranges and two single characters,
  and the pattern \<open>^[a-zA-Z0-9-_]+$\<close>: one or more characters, all of the class.
\<close>

definition shortCodeChar :: "char \<Rightarrow> bool" where
  "shortCodeChar c =
     (let n = (of_char c :: nat) in
      (97 \<le> n \<and> n \<le> 122) \<or> (65 \<le> n \<and> n \<le> 90) \<or> (48 \<le> n \<and> n \<le> 57) \<or> n = 45 \<or> n = 95)"

definition matchesShortCodePattern :: "string \<Rightarrow> bool" where
  "matchesShortCodePattern s = (s \<noteq> [] \<and> list_all shortCodeChar s)"

text \<open>
  A schema is modelled by the messages of the issues it raises on an input, in the
  order of the checks; parsing succeeds when there is none. Whether a string is a URL
  is decided by the validation library, so the check is a parameter \<open>isUrl\<close>.
\<close>

record CreateLinkInput =
  url_in :: string
  shortCode_in :: string

record EditLinkInput = CreateLinkInput +
  id_in :: number

definition shortCodeIssues :: "string \<Rightarrow> string list" where
  "shortCodeIssues s =
     (if length s < 3 then [''Short code must be at least 3 characters''] else []) @
     (if length s > 20 then [''Short code must be at most 20 characters''] else []) @
     (if matchesShortCodePattern s then []
      else [''Short code can only contain letters, numbers, hyphens, and underscores''])"

definition createLinkSchema :: "(string \<Rightarrow> bool) \<Rightarrow> 'a CreateLinkInput_scheme \<Rightarrow> string list" where
  "createLinkSchema isUrl input =
     (if isUrl (url_in input) then [] else [''Invalid URL format'']) @
     shortCodeIssues (shortCode_in input)"

text \<open>
  \<open>editLinkSchema\<close> extends \<open>createLinkSchema\<close> by \<open>id: z.number()\<close>, and
  \<open>deleteLinkSchema\<close> is that field alone; no number raises an issue (the one value
  \<open>z.number()\<close> refuses, NaN, is not among the numbers here).
\<close>

definition numberIssues :: "number \<Rightarrow> string list" where
  "numberIssues i = []"

definition editLinkSchema :: "(string \<Rightarrow> bool) \<Rightarrow> EditLinkInput \<Rightarrow> string list" where
  "editLinkSchema isUrl input = createLinkSchema isUrl input @ numberIssues (id_in input)"

definition deleteLinkSchema :: "number \<Rightarrow> string list" where
  "deleteLinkSchema i = numberIssues i"

subsection \<open>The actions\<close>

datatype 'a ActionResult = Success 'a | Failure string

text \<open>\<open>error.message.includes("unique")\<close>: the substring test of the catch blocks.\<close>

fun startsWith :: "string \<Rightarrow> string \<Rightarrow> bool" where
  "startsWith s [] = True"
| "startsWith [] (c # cs) = False"
| "startsWith (x # xs) (c # cs) = (x = c \<and> startsWith xs cs)"

fun includes_str :: "string \<Rightarrow> string \<Rightarrow> bool" where
  "includes_str [] sub = (sub = [])"
| "includes_str (x # xs) sub = (startsWith (x # xs) sub \<or> includes_str xs sub)"

text \<open>
  \<open>auth()\<close> yields the caller's user id or none; \<open>!userId\<close> holds for none and for the
  empty string. Each action returns its result together with the database it leaves.
  Everything a statement throws is an \<open>Error\<close>, so the last return of each catch block
  ("Failed to ...") is never reached and has no branch here.
\<close>

definition noUser :: "string option \<Rightarrow> bool" where
  "noUser a = (case a of None \<Rightarrow> True | Some uid \<Rightarrow> uid = [])"

definition createLink ::
  "(string \<Rightarrow> bool) \<Rightarrow> string option \<Rightarrow> timestamp \<Rightarrow> CreateLinkInput \<Rightarrow> db
     \<Rightarrow> Link ActionResult \<times> db" where
  "createLink isUrl auth now input d =
     (if noUser auth then (Failure ''Unauthorized'', d)
      else
        (case createLinkSchema isUrl input of
           issue # _ \<Rightarrow> (Failure issue, d)
         | [] \<Rightarrow>
             (case insertLink now \<lparr>userId_new = the auth, shortCode_new = shortCode_in input,
                                   url_new = url_in input, createdAt_new = None,
                                   updatedAt_new = None\<rparr> d of
                (Inr newLink, d') \<Rightarrow> (Success newLink, d')
              | (Inl e, d') \<Rightarrow>
                  (if includes_str (message e) ''unique''
                   then (Failure ''This short code is already in use. Please try another one.'', d')
                   else (Failure (message e), d')))))"

definition editLink ::
  "(string \<Rightarrow> bool) \<Rightarrow> string option \<Rightarrow> timestamp \<Rightarrow> EditLinkInput \<Rightarrow> db
     \<Rightarrow> Link ActionResult \<times> db" where
  "editLink isUrl auth now input d =
     (if noUser auth then (Failure ''Unauthorized'', d)
      else
        (case editLinkSchema isUrl input of
           issue # _ \<Rightarrow> (Failure issue, d)
         | [] \<Rightarrow>
             (case updateLink now (id_in input) (the auth) (url_in input) (shortCode_in input) d of
                (Inr None, d') \<Rightarrow> (Failure ''Link not found or not owned by user'', d')
              | (Inr (Some updatedLink), d') \<Rightarrow> (Success updatedLink, d')
              | (Inl e, d') \<Rightarrow>
                  (if includes_str (message e) ''unique''
                   then (Failure ''This short code is already in use. Please try another one.'', d')
                   else (Failure (message e), d')))))"

definition deleteLinkAction ::
  "string option \<Rightarrow> number \<Rightarrow> db \<Rightarrow> unit ActionResult \<times> db" where
  "deleteLinkAction auth i d =
     (if noUser auth then (Failure ''Unauthorized'', d)
      else
        (case deleteLinkSchema i of
           issue # _ \<Rightarrow> (Failure issue, d)
         | [] \<Rightarrow>
             (case deleteLinkById i (the auth) d of
                (Inr deleted, d') \<Rightarrow>
                  (if \<not> deleted then (Failure ''Link not found or not owned by user'', d')
                   else (Success (), d'))
              | (Inl e, d') \<Rightarrow> (Failure (message e), d'))))"

section \<open>The redirect route (src/unnamed/part_000)\<close>







section \<open>Sequences of calls\<close>

text \<open>
  A call of one of the three actions, with the caller \<open>auth()\<close> finds and the input;
  \<open>serve\<close> runs one call at a given time and keeps the database, \<open>serveAll\<close> runs a
  list of timed calls in order.
\<close>

datatype call =
    CreateLink "string option" CreateLinkInput
  | EditLink "string option" EditLinkInput
  | DeleteLinkAction "string option" number

fun serve :: "(string \<Rightarrow> bool) \<Rightarrow> timestamp \<Rightarrow> call \<Rightarrow> db \<Rightarrow> db" where
  "serve isUrl now (CreateLink auth input) d = snd (createLink isUrl auth now input d)"
| "serve isUrl now (EditLink auth input) d = snd (editLink isUrl auth now input d)"
| "serve isUrl now (DeleteLinkAction auth i) d = snd (deleteLinkAction auth i d)"

fun serveAll :: "(string \<Rightarrow> bool) \<Rightarrow> (timestamp \<times> call) list \<Rightarrow> db \<Rightarrow> db" where
  "serveAll isUrl [] d = d"
| "serveAll isUrl ((now, c) # cs) d = serveAll isUrl cs (serve isUrl now c d)"

section \<open>Invariants of the table\<close>

definition uniqueShortCodes :: "db \<Rightarrow> bool" where
  "uniqueShortCodes d = distinct (map shortCode (rows d))"

definition createdBeforeUpdated :: "db \<Rightarrow> bool" where
  "createdBeforeUpdated d = list_all (\<lambda>r. createdAt r \<le> updatedAt r) (rows d)"

text \<open>No row was created later than the time \<open>now\<close>: the clock does not run backwards.\<close>

definition notFromFuture :: "timestamp \<Rightarrow> db \<Rightarrow> bool" where
  "notFromFuture now d = list_all (\<lambda>r. createdAt r \<le> now) (rows d)"


section \<open>An example table\<close>

text \<open>
  Two links of user A and one of user B, with the next id 8, and a stand-in for the
  library's url check: a string that starts with a scheme.
\<close>

definition exampleDb :: db where
  "exampleDb = \<lparr>rows =
     [\<lparr>id_link = 5, userId = ''user_A'', shortCode = ''abc123'',
        url = ''https://example.com'', createdAt = 10, updatedAt = 10\<rparr>,
      \<lparr>id_link = 6, userId = ''user_B'', shortCode = ''dup1'',
        url = ''https://b.com'', createdAt = 12, updatedAt = 15\<rparr>,
      \<lparr>id_link = 7, userId = ''user_A'', shortCode = ''docs-next'',
        url = ''https://nextjs.org/docs'', createdAt = 14, updatedAt = 14\<rparr>],
     nextId = 8\<rparr>"

definition exampleIsUrl :: "string \<Rightarrow> bool" where
  "exampleIsUrl u = (startsWith u ''https://'' \<or> startsWith u ''http://'')"


definition otherSessionDeletes :: "db \<Rightarrow> db" where
  "otherSessionDeletes d = snd (deleteWhere (Whole 5) ''user_A'' d)"

section \<open>Authentication\<close>

text \<open>
  C2: a create, edit or delete call for which \<open>auth()\<close> yields no user id returns the
  failure \<open>Unauthorized\<close> and leaves the database exactly as it was.
\<close>

theorem unauthenticated_calls_rejected:
  "createLink isUrl None now cin d = (Failure ''Unauthorized'', d)
   \<and> editLink isUrl None now ein d = (Failure ''Unauthorized'', d)
   \<and> deleteLinkAction None i d = (Failure ''Unauthorized'', d)"
  by (simp add: createLink_def editLink_def deleteLinkAction_def noUser_def)

section \<open>Validation\<close>

lemma shortCodeChar_codes:
  "map of_char (''abcdefghijklmnopqrstuvwxyz'' @ ''ABCDEFGHIJKLMNOPQRSTUVWXYZ'' @ ''0123456789-_'')
     = [97..<123] @ [65..<91] @ [48..<58] @ [45, 95 :: nat]"
  by simp

lemma shortCodeChar_enum:
  "shortCodeChar c \<longleftrightarrow>
     c \<in> set (''abcdefghijklmnopqrstuvwxyz'' @ ''ABCDEFGHIJKLMNOPQRSTUVWXYZ'' @ ''0123456789-_'')"
proof
  assume "shortCodeChar c"
  then have "of_char c \<in> {97..<123} \<union> {65..<91} \<union> {48..<58} \<union> {45, 95 :: nat}"
    by (auto simp: shortCodeChar_def Let_def)
  then have "of_char c \<in> set ([97..<123] @ [65..<91] @ [48..<58] @ [45, 95 :: nat])"
    by (simp only: set_append set_upt list.set Un_insert_right Un_empty_right Un_assoc)
  then have "(of_char c :: nat) \<in> of_char ` set (''abcdefghijklmnopqrstuvwxyz'' @ ''ABCDEFGHIJKLMNOPQRSTUVWXYZ'' @ ''0123456789-_'')"
    by (simp only: shortCodeChar_codes [symmetric] set_map)
  then obtain c' where "c' \<in> set (''abcdefghijklmnopqrstuvwxyz'' @ ''ABCDEFGHIJKLMNOPQRSTUVWXYZ'' @ ''0123456789-_'')"
    and "(of_char c :: nat) = of_char c'"
    by blast
  then show "c \<in> set (''abcdefghijklmnopqrstuvwxyz'' @ ''ABCDEFGHIJKLMNOPQRSTUVWXYZ'' @ ''0123456789-_'')"
    by (simp only: of_char_eq_iff)
next
  assume "c \<in> set (''abcdefghijklmnopqrstuvwxyz'' @ ''ABCDEFGHIJKLMNOPQRSTUVWXYZ'' @ ''0123456789-_'')"
  then show "shortCodeChar c"
    by (auto simp: shortCodeChar_def Let_def)
qed


lemma matchesShortCodePattern_iff:
  "matchesShortCodePattern s \<longleftrightarrow>
     s \<noteq> [] \<and> set s \<subseteq> set (''abcdefghijklmnopqrstuvwxyz'' @ ''ABCDEFGHIJKLMNOPQRSTUVWXYZ'' @ ''0123456789-_'')"
  unfolding matchesShortCodePattern_def list_all_iff subset_iff shortCodeChar_enum by blast

lemma shortCodeIssues_empty_iff:
  "shortCodeIssues s = [] \<longleftrightarrow> 3 \<le> length s \<and> length s \<le> 20 \<and> matchesShortCodePattern s"
  by (auto simp: shortCodeIssues_def)

lemma shortCodeIssues_short:
  "length s < 3 \<Longrightarrow> hd (shortCodeIssues s) = ''Short code must be at least 3 characters''"
  by (simp add: shortCodeIssues_def)

lemma shortCodeIssues_long:
  "length s > 20 \<Longrightarrow> hd (shortCodeIssues s) = ''Short code must be at most 20 characters''"
  by (simp add: shortCodeIssues_def)

lemma createLink_invalid_shortCode:
  assumes "\<not> noUser auth" and "isUrl (url_in input)" and "shortCodeIssues (shortCode_in input) \<noteq> []"
  shows "createLink isUrl auth now input d = (Failure (hd (shortCodeIssues (shortCode_in input))), d)"
  using assms by (cases "shortCodeIssues (shortCode_in input)") (simp_all add: createLink_def createLinkSchema_def)

lemma editLink_invalid_shortCode:
  assumes "\<not> noUser auth" and "isUrl (url_in input)" and "shortCodeIssues (shortCode_in input) \<noteq> []"
  shows "editLink isUrl auth now input d = (Failure (hd (shortCodeIssues (shortCode_in input))), d)"
  using assms by (cases "shortCodeIssues (shortCode_in input)")
    (simp_all add: editLink_def editLinkSchema_def createLinkSchema_def numberIssues_def)

text \<open>
  C5: validation accepts a short code exactly when its length is between 3 and 20 and
  every character is one of \<open>a-z\<close>, \<open>A-Z\<close>, \<open>0-9\<close>, \<open>-\<close>, \<open>_\<close>. Length 2 raises the
  "at least 3" issue first and length 21 the "at most 20" issue first; the create and
  the edit schema accept the same urls and short codes; and an authenticated call with
  a valid url and a rejected short code fails with the first short-code issue, for
  create and for edit, without touching the database.
\<close>

theorem shortCode_validation:
  "(shortCodeIssues s = [] \<longleftrightarrow>
      3 \<le> length s \<and> length s \<le> 20 \<and>
      set s \<subseteq> set (''abcdefghijklmnopqrstuvwxyz'' @ ''ABCDEFGHIJKLMNOPQRSTUVWXYZ'' @ ''0123456789-_''))
   \<and> (length s = 2 \<longrightarrow> hd (shortCodeIssues s) = ''Short code must be at least 3 characters'')
   \<and> (length s = 21 \<longrightarrow> hd (shortCodeIssues s) = ''Short code must be at most 20 characters'')
   \<and> (createLinkSchema isUrl cin = [] \<longleftrightarrow> isUrl (url_in cin) \<and> shortCodeIssues (shortCode_in cin) = [])
   \<and> (editLinkSchema isUrl ein = [] \<longleftrightarrow> isUrl (url_in ein) \<and> shortCodeIssues (shortCode_in ein) = [])
   \<and> (\<not> noUser auth \<and> isUrl (url_in cin) \<and> shortCodeIssues (shortCode_in cin) \<noteq> [] \<longrightarrow>
        createLink isUrl auth now cin d = (Failure (hd (shortCodeIssues (shortCode_in cin))), d))
   \<and> (\<not> noUser auth \<and> isUrl (url_in ein) \<and> shortCodeIssues (shortCode_in ein) \<noteq> [] \<longrightarrow>
        editLink isUrl auth now ein d = (Failure (hd (shortCodeIssues (shortCode_in ein))), d))"
proof -
  have "shortCodeIssues s = [] \<longleftrightarrow>
      3 \<le> length s \<and> length s \<le> 20 \<and>
      set s \<subseteq> set (''abcdefghijklmnopqrstuvwxyz'' @ ''ABCDEFGHIJKLMNOPQRSTUVWXYZ'' @ ''0123456789-_'')"
    unfolding shortCodeIssues_empty_iff matchesShortCodePattern_iff by auto
  moreover have "createLinkSchema isUrl cin = [] \<longleftrightarrow> isUrl (url_in cin) \<and> shortCodeIssues (shortCode_in cin) = []"
    by (simp add: createLinkSchema_def)
  moreover have "editLinkSchema isUrl ein = [] \<longleftrightarrow> isUrl (url_in ein) \<and> shortCodeIssues (shortCode_in ein) = []"
    by (simp add: editLinkSchema_def createLinkSchema_def numberIssues_def)
  ultimately show ?thesis
    using shortCodeIssues_short [of s] shortCodeIssues_long [of s]
      createLink_invalid_shortCode [of auth isUrl cin now d]
      editLink_invalid_shortCode [of auth isUrl ein now d]
    by simp
qed

theorem shortCode_validation_witness:
  "shortCodeIssues ''ab'' \<noteq> []
   \<and> shortCodeIssues ''abc'' = []
   \<and> shortCodeIssues ''abcdefghij0123456789'' = []
   \<and> shortCodeIssues ''abcdefghij0123456789x'' \<noteq> []
   \<and> hd (shortCodeIssues ''ab'') = ''Short code must be at least 3 characters''
   \<and> hd (shortCodeIssues ''abcdefghij0123456789x'') = ''Short code must be at most 20 characters''
   \<and> createLink exampleIsUrl (Some ''user_A'') 20
        \<lparr>url_in = ''https://a.com'', shortCode_in = ''ab''\<rparr> exampleDb
      = (Failure ''Short code must be at least 3 characters'', exampleDb)
   \<and> editLink exampleIsUrl (Some ''user_A'') 20
        \<lparr>url_in = ''https://a.com'', shortCode_in = ''ab'', id_in = Whole 5\<rparr> exampleDb
      = (Failure ''Short code must be at least 3 characters'', exampleDb)"
  using shortCode_validation [of "''ab''" exampleIsUrl
      "\<lparr>url_in = ''https://a.com'', shortCode_in = ''ab''\<rparr>"
      "\<lparr>url_in = ''https://a.com'', shortCode_in = ''ab'', id_in = Whole 5\<rparr>" "Some ''user_A''" 20 exampleDb]
    shortCode_validation [of "''abc''"]
    shortCode_validation [of "''abcdefghij0123456789''"]
    shortCode_validation [of "''abcdefghij0123456789x''"]
  by (simp add: noUser_def exampleIsUrl_def)

section \<open>The redirect route\<close>






section \<open>Listing\<close>

text \<open>
  C8: for every user id the listing returns exactly the links of that user (each row
  once), most recently updated first, and the empty list for a user without links.
\<close>

theorem getUserLinks_owned_newest_first:
  "mset (getUserLinks uid d) = filter_mset (\<lambda>r. userId r = uid) (mset (rows d))
   \<and> sorted_wrt (\<lambda>a b. updatedAt a \<ge> updatedAt b) (getUserLinks uid d)
   \<and> (uid \<notin> userId ` set (rows d) \<longrightarrow> getUserLinks uid d = [])"
proof (intro conjI impI)
  show "mset (getUserLinks uid d) = filter_mset (\<lambda>r. userId r = uid) (mset (rows d))"
    by (simp add: getUserLinks_def)
next
  have "sorted (map updatedAt (sort_key updatedAt (filter (\<lambda>r. userId r = uid) (rows d))))"
    by (rule sorted_sort_key)
  then have "sorted_wrt (\<lambda>a b. updatedAt a \<le> updatedAt b)
      (sort_key updatedAt (filter (\<lambda>r. userId r = uid) (rows d)))"
    by (simp add: sorted_map)
  then show "sorted_wrt (\<lambda>a b. updatedAt a \<ge> updatedAt b) (getUserLinks uid d)"
    by (simp add: getUserLinks_def sorted_wrt_rev)
next
  assume "uid \<notin> userId ` set (rows d)"
  then have "filter (\<lambda>r. userId r = uid) (rows d) = []"
    by (auto simp: filter_empty_conv)
  then show "getUserLinks uid d = []"
    by (simp add: getUserLinks_def)
qed

theorem getUserLinks_owned_newest_first_witness:
  "getUserLinks ''user_A'' exampleDb = [rows exampleDb ! 2, rows exampleDb ! 0]
   \<and> getUserLinks ''user_C'' exampleDb = []"
  using getUserLinks_owned_newest_first [of "''user_C''" exampleDb]
  by (simp add: exampleDb_def getUserLinks_def)

section \<open>Uniqueness of short codes\<close>

lemma insertLink_unique:
  "uniqueShortCodes d \<Longrightarrow> uniqueShortCodes (snd (insertLink now data d))"
  by (auto simp: insertLink_def uniqueShortCodes_def Let_def)

lemma recode_unique:
  assumes "distinct (map shortCode rs)"
    and "newCode \<notin> shortCode ` {r \<in> set rs. \<not> P r}"
    and "length (filter P rs) \<le> 1"
  shows "distinct (map (\<lambda>r. if P r then newCode else shortCode r) rs)"
  using assms
proof (induction rs)
  case Nil
  then show ?case by simp
next
  case (Cons r rs)
  show ?case
  proof (cases "P r")
    case True
    with Cons.prems have none: "\<forall>x \<in> set rs. \<not> P x"
      by (simp add: filter_empty_conv)
    then have same: "map (\<lambda>r. if P r then newCode else shortCode r) rs = map shortCode rs"
      by simp
    from none Cons.prems(2) have "newCode \<notin> shortCode ` set rs"
      by auto
    then have "newCode \<notin> set (map (\<lambda>r. if P r then newCode else shortCode r) rs)"
      by (subst same) simp
    moreover have "distinct (map (\<lambda>r. if P r then newCode else shortCode r) rs)"
      by (subst same) (use Cons.prems(1) in simp)
    ultimately show ?thesis
      using True by (simp del: set_map)
  next
    case False
    with Cons.prems have "shortCode r \<noteq> newCode" by auto
    moreover from Cons.prems(1) have "shortCode r \<notin> shortCode ` set rs" by simp
    ultimately have "shortCode r \<notin> (\<lambda>r. if P r then newCode else shortCode r) ` set rs"
      by auto
    moreover have "distinct (map (\<lambda>r. if P r then newCode else shortCode r) rs)"
      using Cons.IH Cons.prems False by auto
    ultimately show ?thesis using False by simp
  qed
qed

lemma shortCode_after_update:
  "map shortCode (map (\<lambda>r. if owned i uid r then setFields now newUrl newCode r else r) rs)
     = map (\<lambda>r. if owned i uid r then newCode else shortCode r) rs"
  by (simp add: setFields_def)

lemma updateWhere_unique:
  assumes "uniqueShortCodes d"
  shows "uniqueShortCodes (snd (updateWhere now i uid newUrl newCode d))"
proof (cases "int4 i \<and> filter (owned i uid) (rows d) \<noteq> [] \<and> \<not> length newCode > 20
    \<and> \<not> (newCode \<in> set (map shortCode (filter (\<lambda>r. \<not> owned i uid r) (rows d)))
         \<or> length (filter (owned i uid) (rows d)) > 1)")
  case True
  then have "distinct (map (\<lambda>r. if owned i uid r then newCode else shortCode r) (rows d))"
    using assms by (intro recode_unique) (auto simp: uniqueShortCodes_def)
  with True show ?thesis
    by (simp add: updateWhere_def Let_def uniqueShortCodes_def shortCode_after_update del: map_map)
next
  case False
  then have "snd (updateWhere now i uid newUrl newCode d) = d"
    by (auto simp: updateWhere_def Let_def)
  with assms show ?thesis by simp
qed

lemma deleteWhere_unique:
  "uniqueShortCodes d \<Longrightarrow> uniqueShortCodes (snd (deleteWhere i uid d))"
  by (simp add: uniqueShortCodes_def deleteWhere_def distinct_map_filter)


lemma createLink_db:
  "snd (createLink isUrl auth now cin d) = d \<or>
   snd (createLink isUrl auth now cin d) =
     snd (insertLink now \<lparr>userId_new = the auth, shortCode_new = shortCode_in cin,
            url_new = url_in cin, createdAt_new = None, updatedAt_new = None\<rparr> d)"
  by (auto simp: createLink_def split: list.split sum.split prod.split)

lemma updateLink_db:
  "snd (updateLink now i uid newUrl newCode d) = d \<or>
   snd (updateLink now i uid newUrl newCode d) = snd (updateWhere now i uid newUrl newCode d)"
proof (cases "selectByIdAndUser i uid d")
  case (Inl e)
  then show ?thesis by (simp add: updateLink_def updateLink_between_def)
next
  case (Inr found)
  then show ?thesis
    by (cases found; cases "updateWhere now i uid newUrl newCode d")
      (auto simp: updateLink_def updateLink_between_def split: sum.split list.split)
qed

lemma editLink_db:
  "snd (editLink isUrl auth now ein d) = d \<or>
   snd (editLink isUrl auth now ein d) =
     snd (updateWhere now (id_in ein) (the auth) (url_in ein) (shortCode_in ein) d)"
proof (cases "updateLink now (id_in ein) (the auth) (url_in ein) (shortCode_in ein) d")
  case (Pair res d')
  with updateLink_db [of now "id_in ein" "the auth" "url_in ein" "shortCode_in ein" d]
  show ?thesis
    by (auto simp: editLink_def split: list.split sum.split option.split)
qed

lemma deleteLinkById_db:
  "snd (deleteLinkById i uid d) = d \<or> snd (deleteLinkById i uid d) = snd (deleteWhere i uid d)"
proof (cases "selectByIdAndUser i uid d")
  case (Inl e)
  then show ?thesis by (simp add: deleteLinkById_def deleteLinkById_between_def)
next
  case (Inr found)
  then show ?thesis
    by (cases found; cases "deleteWhere i uid d")
      (auto simp: deleteLinkById_def deleteLinkById_between_def split: sum.split)
qed

lemma deleteLinkAction_db:
  "snd (deleteLinkAction auth i d) = d \<or>
   snd (deleteLinkAction auth i d) = snd (deleteWhere i (the auth) d)"
proof (cases "deleteLinkById i (the auth) d")
  case (Pair res d')
  with deleteLinkById_db [of i "the auth" d]
  show ?thesis
    by (auto simp: deleteLinkAction_def deleteLinkSchema_def numberIssues_def split: sum.split)
qed

lemma serve_unique: "uniqueShortCodes d \<Longrightarrow> uniqueShortCodes (serve isUrl now c d)"
proof (cases c)
  case (CreateLink auth cin)
  assume "uniqueShortCodes d"
  then show ?thesis
    using CreateLink createLink_db [of isUrl auth now cin d]
      insertLink_unique [of d now]
    by auto
next
  case (EditLink auth ein)
  assume "uniqueShortCodes d"
  then show ?thesis
    using EditLink editLink_db [of isUrl auth now ein d]
      updateWhere_unique [of d now "id_in ein" "the auth" "url_in ein" "shortCode_in ein"]
    by auto
next
  case (DeleteLinkAction auth i)
  assume "uniqueShortCodes d"
  then show ?thesis
    using DeleteLinkAction deleteLinkAction_db [of auth i d]
      deleteWhere_unique [of d i "the auth"]
    by auto
qed

lemma serveAll_unique: "uniqueShortCodes d \<Longrightarrow> uniqueShortCodes (serveAll isUrl calls d)"
  by (induction calls arbitrary: d) (auto simp: serve_unique)

lemma unique_at_most_one:
  "distinct (map shortCode rs) \<Longrightarrow> length (filter (\<lambda>r. shortCode r = code) rs) \<le> 1"
proof (induction rs)
  case Nil
  then show ?case by simp
next
  case (Cons r rs)
  then show ?case
    by (auto simp: filter_empty_conv image_iff)
qed

text \<open>
  C1: no two rows of the table share a short code, and the statements of the store
  keep it so by themselves: from a table with unique short codes, an insert, an
  update and a delete statement each leave a table with unique short codes, whether
  they succeed or fail, and so does every sequence of create, edit and delete calls
  by any callers with any inputs. After such a sequence at most one row has any given
  short code; the empty table is a table to start from.
\<close>

theorem shortCodes_stay_unique:
  assumes "uniqueShortCodes d"
  shows "uniqueShortCodes (snd (insertLink now data d))
    \<and> uniqueShortCodes (snd (updateWhere now i uid newUrl newCode d))
    \<and> uniqueShortCodes (snd (deleteWhere i uid d))
    \<and> uniqueShortCodes (serveAll isUrl calls d)
    \<and> length (filter (\<lambda>r. shortCode r = code) (rows (serveAll isUrl calls d))) \<le> 1
    \<and> uniqueShortCodes (serveAll isUrl calls \<lparr>rows = [], nextId = n\<rparr>)"
proof -
  have "uniqueShortCodes \<lparr>rows = [], nextId = n\<rparr>"
    by (simp add: uniqueShortCodes_def)
  then have "uniqueShortCodes (serveAll isUrl calls \<lparr>rows = [], nextId = n\<rparr>)"
    by (rule serveAll_unique)
  moreover have u: "uniqueShortCodes (serveAll isUrl calls d)"
    using assms by (rule serveAll_unique)
  then have "length (filter (\<lambda>r. shortCode r = code) (rows (serveAll isUrl calls d))) \<le> 1"
    unfolding uniqueShortCodes_def by (rule unique_at_most_one)
  ultimately show ?thesis
    using assms u insertLink_unique updateWhere_unique deleteWhere_unique
    by simp
qed


lemma createLink_valid_db:
  "\<not> noUser auth \<Longrightarrow> createLinkSchema isUrl cin = [] \<Longrightarrow>
   snd (createLink isUrl auth now cin d) =
     snd (insertLink now \<lparr>userId_new = the auth, shortCode_new = shortCode_in cin,
            url_new = url_in cin, createdAt_new = None, updatedAt_new = None\<rparr> d)"
  by (auto simp: createLink_def split: sum.split prod.split)

lemma editLink_valid_db:
  "\<not> noUser auth \<Longrightarrow> editLinkSchema isUrl ein = [] \<Longrightarrow>
   snd (editLink isUrl auth now ein d) =
     snd (updateLink now (id_in ein) (the auth) (url_in ein) (shortCode_in ein) d)"
  by (auto simp: editLink_def split: sum.split prod.split option.split)

lemma deleteLinkAction_valid_db:
  "\<not> noUser auth \<Longrightarrow> snd (deleteLinkAction auth i d) = snd (deleteLinkById i (the auth) d)"
  by (auto simp: deleteLinkAction_def deleteLinkSchema_def numberIssues_def
      split: sum.split prod.split)

lemma exampleInputs_valid:
  "shortCodeIssues ''abc123'' = []" "shortCodeIssues ''fresh'' = []"
  "shortCodeIssues ''abc-123'' = []" "shortCodeIssues ''dup1'' = []"
  "shortCodeIssues ''mine'' = []"
  by (simp_all add: shortCodeIssues_def matchesShortCodePattern_def shortCodeChar_def)

theorem shortCodes_stay_unique_witness:
  "uniqueShortCodes exampleDb
   \<and> uniqueShortCodes (serveAll exampleIsUrl
         [(20, CreateLink (Some ''user_B'') \<lparr>url_in = ''https://c.com'', shortCode_in = ''abc123''\<rparr>),
          (21, EditLink (Some ''user_B'') \<lparr>url_in = ''https://c.com'', shortCode_in = ''abc123'', id_in = Whole 6\<rparr>),
          (22, CreateLink (Some ''user_B'') \<lparr>url_in = ''https://c.com'', shortCode_in = ''fresh''\<rparr>),
          (23, EditLink (Some ''user_A'') \<lparr>url_in = ''https://d.com'', shortCode_in = ''abc-123'', id_in = Whole 5\<rparr>),
          (24, DeleteLinkAction (Some ''user_A'') (Whole 7))] exampleDb)
   \<and> map shortCode (rows (serveAll exampleIsUrl
         [(20, CreateLink (Some ''user_B'') \<lparr>url_in = ''https://c.com'', shortCode_in = ''abc123''\<rparr>),
          (21, EditLink (Some ''user_B'') \<lparr>url_in = ''https://c.com'', shortCode_in = ''abc123'', id_in = Whole 6\<rparr>),
          (22, CreateLink (Some ''user_B'') \<lparr>url_in = ''https://c.com'', shortCode_in = ''fresh''\<rparr>),
          (23, EditLink (Some ''user_A'') \<lparr>url_in = ''https://d.com'', shortCode_in = ''abc-123'', id_in = Whole 5\<rparr>),
          (24, DeleteLinkAction (Some ''user_A'') (Whole 7))] exampleDb)) = [''abc-123'', ''dup1'', ''fresh'']
   \<and> map shortCode (rows (snd (insertLink 20
         \<lparr>userId_new = ''user_B'', shortCode_new = ''abc123'', url_new = ''https://c.com'',
          createdAt_new = None, updatedAt_new = None\<rparr> exampleDb))) = [''abc123'', ''dup1'', ''docs-next'']"
proof -
  let ?calls = "[(20, CreateLink (Some ''user_B'') \<lparr>url_in = ''https://c.com'', shortCode_in = ''abc123''\<rparr>),
          (21, EditLink (Some ''user_B'') \<lparr>url_in = ''https://c.com'', shortCode_in = ''abc123'', id_in = Whole 6\<rparr>),
          (22, CreateLink (Some ''user_B'') \<lparr>url_in = ''https://c.com'', shortCode_in = ''fresh''\<rparr>),
          (23, EditLink (Some ''user_A'') \<lparr>url_in = ''https://d.com'', shortCode_in = ''abc-123'', id_in = Whole 5\<rparr>),
          (24, DeleteLinkAction (Some ''user_A'') (Whole 7))]"
  have u: "uniqueShortCodes exampleDb"
    by (simp add: uniqueShortCodes_def exampleDb_def)
  have run: "map shortCode (rows (serveAll exampleIsUrl ?calls exampleDb))
      = [''abc-123'', ''dup1'', ''fresh'']"
    by (simp add: createLink_valid_db editLink_valid_db deleteLinkAction_valid_db
        exampleInputs_valid createLinkSchema_def editLinkSchema_def numberIssues_def
        insertLink_def updateLink_def updateLink_between_def deleteLinkById_def
        deleteLinkById_between_def selectByIdAndUser_def updateWhere_def deleteWhere_def
        owned_def setFields_def exampleDb_def exampleIsUrl_def noUser_def Let_def)
  have ins: "map shortCode (rows (snd (insertLink 20
         \<lparr>userId_new = ''user_B'', shortCode_new = ''abc123'', url_new = ''https://c.com'',
          createdAt_new = None, updatedAt_new = None\<rparr> exampleDb))) = [''abc123'', ''dup1'', ''docs-next'']"
    by (simp add: insertLink_def exampleDb_def Let_def)
  from shortCodes_stay_unique [OF u, where isUrl = exampleIsUrl and calls = ?calls]
  have "uniqueShortCodes (serveAll exampleIsUrl ?calls exampleDb)"
    by (rule conjunct2 [THEN conjunct2, THEN conjunct2, THEN conjunct1])
  with u run ins show ?thesis
    by (intro conjI)
qed


section \<open>Timestamps\<close>

lemma insertLink_defaults_times:
  assumes "createdAt_new data = None" and "updatedAt_new data = None"
    and "createdBeforeUpdated d" and "notFromFuture t0 d" and "t0 \<le> now"
  shows "createdBeforeUpdated (snd (insertLink now data d))
    \<and> notFromFuture now (snd (insertLink now data d))"
  using assms
  by (auto simp: insertLink_def Let_def createdBeforeUpdated_def notFromFuture_def list_all_iff)

lemma updateWhere_times:
  assumes "createdBeforeUpdated d" and "notFromFuture t0 d" and "t0 \<le> now"
  shows "createdBeforeUpdated (snd (updateWhere now i uid newUrl newCode d))
    \<and> notFromFuture now (snd (updateWhere now i uid newUrl newCode d))"
  using assms
  by (auto simp: updateWhere_def Let_def setFields_def createdBeforeUpdated_def
      notFromFuture_def list_all_iff)

lemma deleteWhere_times:
  assumes "createdBeforeUpdated d" and "notFromFuture t0 d"
  shows "createdBeforeUpdated (snd (deleteWhere i uid d))
    \<and> notFromFuture t0 (snd (deleteWhere i uid d))"
  using assms
  by (auto simp: deleteWhere_def createdBeforeUpdated_def notFromFuture_def list_all_iff)

lemma notFromFuture_later: "notFromFuture t0 d \<Longrightarrow> t0 \<le> now \<Longrightarrow> notFromFuture now d"
  by (auto simp: notFromFuture_def list_all_iff)

lemma serve_times:
  assumes "createdBeforeUpdated d" and "notFromFuture t0 d" and "t0 \<le> now"
  shows "createdBeforeUpdated (serve isUrl now c d) \<and> notFromFuture now (serve isUrl now c d)"
proof (cases c)
  case (CreateLink auth cin)
  then show ?thesis
    using assms createLink_db [of isUrl auth now cin d] notFromFuture_later [of t0 d now]
      insertLink_defaults_times [of "\<lparr>userId_new = the auth, shortCode_new = shortCode_in cin,
            url_new = url_in cin, createdAt_new = None, updatedAt_new = None\<rparr>" d t0 now]
    by auto
next
  case (EditLink auth ein)
  then show ?thesis
    using assms editLink_db [of isUrl auth now ein d] notFromFuture_later [of t0 d now]
      updateWhere_times [of d t0 now "id_in ein" "the auth" "url_in ein" "shortCode_in ein"]
    by auto
next
  case (DeleteLinkAction auth i)
  then show ?thesis
    using assms deleteLinkAction_db [of auth i d] notFromFuture_later [of t0 d now]
      deleteWhere_times [of d t0 i "the auth"]
    by (auto intro: notFromFuture_later)
qed

lemma serveAll_times:
  "createdBeforeUpdated d \<Longrightarrow> notFromFuture t0 d \<Longrightarrow> sorted (t0 # map fst calls)
     \<Longrightarrow> createdBeforeUpdated (serveAll isUrl calls d)"
proof (induction calls arbitrary: d t0)
  case Nil
  then show ?case by simp
next
  case (Cons tc calls)
  obtain now c where tc: "tc = (now, c)" by (cases tc)
  with Cons.prems have le: "t0 \<le> now" and rest: "sorted (now # map fst calls)"
    by auto
  from serve_times [OF Cons.prems(1,2) le]
  have "createdBeforeUpdated (serve isUrl now c d)" and "notFromFuture now (serve isUrl now c d)"
    by blast+
  then have "createdBeforeUpdated (serveAll isUrl calls (serve isUrl now c d))"
    using rest by (rule Cons.IH)
  then show ?case by (simp add: tc)
qed

lemma createLink_success_times:
  assumes "createLink isUrl auth now cin d = (Success l, d')"
  shows "updatedAt l = createdAt l \<and> createdAt l = now \<and> l \<in> set (rows d')"
  using assms
  by (auto simp: createLink_def insertLink_def Let_def
      split: if_splits list.splits sum.splits prod.splits)

lemma editLink_success_times:
  assumes "editLink isUrl auth now ein d = (Success l, d')"
  shows "updatedAt l = now \<and> l \<in> set (rows d')
    \<and> map createdAt (rows d') = map createdAt (rows d)
    \<and> map id_link (rows d') = map id_link (rows d)"
proof -
  from assms obtain ls where
    upd: "updateWhere now (id_in ein) (the auth) (url_in ein) (shortCode_in ein) d = (Inr (l # ls), d')"
    by (auto simp: editLink_def updateLink_def updateLink_between_def
      split: if_splits list.splits sum.splits prod.splits option.splits)
  let ?P = "owned (id_in ein) (the auth)"
  let ?f = "setFields now (url_in ein) (shortCode_in ein)"
  from upd have ret: "map ?f (filter ?P (rows d)) = l # ls"
    and d': "rows d' = map (\<lambda>r. if ?P r then ?f r else r) (rows d)"
    by (auto simp: updateWhere_def Let_def split: if_splits)
  from ret have "l \<in> ?f ` {r \<in> set (rows d). ?P r}"
    by (metis list.set_intros(1) set_filter set_map)
  then obtain r where r: "r \<in> set (rows d)" "?P r" "l = ?f r"
    by blast
  then have "l \<in> set (rows d')"
    unfolding d' by force
  moreover have "updatedAt l = now"
    using r by (simp add: setFields_def)
  moreover have "map createdAt (rows d') = map createdAt (rows d)"
    unfolding d' by (simp add: setFields_def)
  moreover have "map id_link (rows d') = map id_link (rows d)"
    unfolding d' by (simp add: setFields_def)
  ultimately show ?thesis by simp
qed

text \<open>
  C9: a link that create returns has \<open>updatedAt\<close> equal to \<open>createdAt\<close>, the time of
  the call; a link that edit returns has \<open>updatedAt\<close> set to the time of the call, and
  the edit leaves the \<open>createdAt\<close> of every row as it was. Hence a table in which every
  row has \<open>createdAt \<le> updatedAt\<close> stays such a table through every sequence of
  create, edit and delete calls, provided the clock does not run backwards: the calls
  come in time order, and none is earlier than the creation of a row already in the
  table. The code does not see to that itself: \<open>createdAt\<close> is the database's \<open>now()\<close>,
  the \<open>updatedAt\<close> of an edit is the server's \<open>new Date()\<close>.
\<close>

theorem updatedAt_not_before_createdAt:
  "(createLink isUrl auth now cin d = (Success l, d') \<longrightarrow>
      updatedAt l = createdAt l \<and> createdAt l = now \<and> l \<in> set (rows d'))
   \<and> (editLink isUrl auth now ein d = (Success l, d') \<longrightarrow>
      updatedAt l = now \<and> l \<in> set (rows d')
      \<and> map createdAt (rows d') = map createdAt (rows d)
      \<and> map id_link (rows d') = map id_link (rows d))
   \<and> (createdBeforeUpdated d \<and> notFromFuture t0 d \<and> sorted (t0 # map fst calls) \<longrightarrow>
      createdBeforeUpdated (serveAll isUrl calls d))"
  using createLink_success_times [of isUrl auth now cin d l d']
    editLink_success_times [of isUrl auth now ein d l d']
    serveAll_times [of d t0 calls isUrl]
  by blast


theorem updatedAt_not_before_createdAt_witness:
  "createLink exampleIsUrl (Some ''user_B'') 20
       \<lparr>url_in = ''https://c.com'', shortCode_in = ''fresh''\<rparr> exampleDb
     = (Success \<lparr>id_link = 8, userId = ''user_B'', shortCode = ''fresh'', url = ''https://c.com'',
                 createdAt = 20, updatedAt = 20\<rparr>,
        \<lparr>rows = rows exampleDb @ [\<lparr>id_link = 8, userId = ''user_B'', shortCode = ''fresh'',
                 url = ''https://c.com'', createdAt = 20, updatedAt = 20\<rparr>], nextId = 9\<rparr>)
   \<and> fst (editLink exampleIsUrl (Some ''user_A'') 23
       \<lparr>url_in = ''https://d.com'', shortCode_in = ''abc-123'', id_in = Whole 5\<rparr> exampleDb)
     = Success \<lparr>id_link = 5, userId = ''user_A'', shortCode = ''abc-123'', url = ''https://d.com'',
                 createdAt = 10, updatedAt = 23\<rparr>
   \<and> createdBeforeUpdated exampleDb \<and> notFromFuture 20 exampleDb
   \<and> createdBeforeUpdated (serveAll exampleIsUrl
         [(20, CreateLink (Some ''user_B'') \<lparr>url_in = ''https://c.com'', shortCode_in = ''fresh''\<rparr>),
          (23, EditLink (Some ''user_A'') \<lparr>url_in = ''https://d.com'', shortCode_in = ''abc-123'', id_in = Whole 5\<rparr>)]
         exampleDb)"
proof -
  let ?calls = "[(20::timestamp, CreateLink (Some ''user_B'') \<lparr>url_in = ''https://c.com'', shortCode_in = ''fresh''\<rparr>),
          (23, EditLink (Some ''user_A'') \<lparr>url_in = ''https://d.com'', shortCode_in = ''abc-123'', id_in = Whole 5\<rparr>)]"
  have c: "createLink exampleIsUrl (Some ''user_B'') 20
       \<lparr>url_in = ''https://c.com'', shortCode_in = ''fresh''\<rparr> exampleDb
     = (Success \<lparr>id_link = 8, userId = ''user_B'', shortCode = ''fresh'', url = ''https://c.com'',
                 createdAt = 20, updatedAt = 20\<rparr>,
        \<lparr>rows = rows exampleDb @ [\<lparr>id_link = 8, userId = ''user_B'', shortCode = ''fresh'',
                 url = ''https://c.com'', createdAt = 20, updatedAt = 20\<rparr>], nextId = 9\<rparr>)"
    by (simp add: createLink_def createLinkSchema_def shortCodeIssues_def
        matchesShortCodePattern_def shortCodeChar_def insertLink_def exampleDb_def
        exampleIsUrl_def noUser_def Let_def)
  have e: "fst (editLink exampleIsUrl (Some ''user_A'') 23
       \<lparr>url_in = ''https://d.com'', shortCode_in = ''abc-123'', id_in = Whole 5\<rparr> exampleDb)
     = Success \<lparr>id_link = 5, userId = ''user_A'', shortCode = ''abc-123'', url = ''https://d.com'',
                 createdAt = 10, updatedAt = 23\<rparr>"
    by (simp add: editLink_def editLinkSchema_def createLinkSchema_def numberIssues_def
        shortCodeIssues_def matchesShortCodePattern_def shortCodeChar_def updateLink_def
        updateLink_between_def selectByIdAndUser_def updateWhere_def owned_def setFields_def
        exampleDb_def exampleIsUrl_def noUser_def Let_def)
  have h1: "createdBeforeUpdated exampleDb" and h2: "notFromFuture 20 exampleDb"
    by (simp_all add: createdBeforeUpdated_def notFromFuture_def exampleDb_def)
  have h3: "sorted ((20::timestamp) # map fst ?calls)"
    by simp
  from updatedAt_not_before_createdAt [where d = exampleDb and ?t0.0 = 20 and calls = ?calls
      and isUrl = exampleIsUrl] h1 h2 h3
  have "createdBeforeUpdated (serveAll exampleIsUrl ?calls exampleDb)"
    by blast
  with c e h1 h2 show ?thesis
    by (intro conjI)
qed




theorem clock_behind_edit_counterexample:
  "createdBeforeUpdated exampleDb
   \<and> \<not> createdBeforeUpdated (serve exampleIsUrl 9
        (EditLink (Some ''user_A'')
           \<lparr>url_in = ''https://d.com'', shortCode_in = ''abc-123'', id_in = Whole 5\<rparr>)
        exampleDb)"
  by (simp add: createdBeforeUpdated_def editLink_valid_db exampleInputs_valid
      createLinkSchema_def editLinkSchema_def numberIssues_def updateLink_def
      updateLink_between_def selectByIdAndUser_def updateWhere_def owned_def setFields_def
      exampleDb_def exampleIsUrl_def noUser_def Let_def)

section \<open>Short codes already in use\<close>

lemma showNat_small: "n < 10 \<Longrightarrow> showNat n = [''0123456789'' ! n]"
  by (subst showNat.simps) simp

lemma showNat_large:
  "10 \<le> n \<Longrightarrow> showNat n = showNat (n div 10) @ [''0123456789'' ! (n mod 10)]"
  by (subst showNat.simps) simp

lemma example_texts:
  "toISOString 20 = ''1970-01-01T00:00:00.020Z''"
  "showNumber (Whole 5) = ''5''"
  by (simp_all add: toISOString_def pad2_def pad3_def pad4_def showNat_small showNat_large Let_def)

lemma insert_message_without_unique:
  "\<not> includes_str (message (DrizzleQueryError (insertSql None None)
        [''user_A'', ''dup1'', ''https://b.com''] UniqueViolation)) ''unique''"
  by (simp add: message.simps insertSql_def allColumns_def quoted_def)

lemma update_message_without_unique:
  "\<not> includes_str (message (updateFails 20 (Whole 5) ''user_A'' ''https://b.com'' ''dup1''
        UniqueViolation)) ''unique''"
  by (simp add: message.simps updateFails_def updateSql_def whereIdAndUser_def allColumns_def
      quoted_def example_texts del: showNumber.simps)

text \<open>
  C6: user A, authenticated, creates \<open>{url: "https://b.com", shortCode: "dup1"}\<close> while
  a link of user B has the short code \<open>dup1\<close>; the input passes validation. The insert
  is refused for the unique constraint, but the message of the error the ORM throws is
  \<open>Failed query: insert into ...\<close> with the parameters, which does not contain
  \<open>unique\<close>: the catch block returns that text, not "This short code is already in
  use. Please try another one.". The same happens when user A edits link 5 to the
  short code \<open>dup1\<close>.
\<close>

theorem taken_shortCode_raw_message:
  "''dup1'' \<in> shortCode ` set (rows exampleDb)
   \<and> createLinkSchema exampleIsUrl \<lparr>url_in = ''https://b.com'', shortCode_in = ''dup1''\<rparr> = []
   \<and> fst (createLink exampleIsUrl (Some ''user_A'') 20
          \<lparr>url_in = ''https://b.com'', shortCode_in = ''dup1''\<rparr> exampleDb)
       = Failure (message (DrizzleQueryError (insertSql None None)
            [''user_A'', ''dup1'', ''https://b.com''] UniqueViolation))
   \<and> fst (createLink exampleIsUrl (Some ''user_A'') 20
          \<lparr>url_in = ''https://b.com'', shortCode_in = ''dup1''\<rparr> exampleDb)
       \<noteq> Failure ''This short code is already in use. Please try another one.''
   \<and> fst (editLink exampleIsUrl (Some ''user_A'') 20
          \<lparr>url_in = ''https://b.com'', shortCode_in = ''dup1'', id_in = Whole 5\<rparr> exampleDb)
       = Failure (message (updateFails 20 (Whole 5) ''user_A'' ''https://b.com'' ''dup1''
            UniqueViolation))
   \<and> fst (editLink exampleIsUrl (Some ''user_A'') 20
          \<lparr>url_in = ''https://b.com'', shortCode_in = ''dup1'', id_in = Whole 5\<rparr> exampleDb)
       \<noteq> Failure ''This short code is already in use. Please try another one.''"
proof -
  have v: "createLinkSchema exampleIsUrl \<lparr>url_in = ''https://b.com'', shortCode_in = ''dup1''\<rparr> = []"
    and v': "editLinkSchema exampleIsUrl
        \<lparr>url_in = ''https://b.com'', shortCode_in = ''dup1'', id_in = Whole 5\<rparr> = []"
    by (simp_all add: editLinkSchema_def createLinkSchema_def numberIssues_def
        exampleInputs_valid exampleIsUrl_def)
  have ins: "insertLink 20 \<lparr>userId_new = ''user_A'', shortCode_new = ''dup1'',
        url_new = ''https://b.com'', createdAt_new = None, updatedAt_new = None\<rparr> exampleDb
      = (Inl (DrizzleQueryError (insertSql None None)
            [''user_A'', ''dup1'', ''https://b.com''] UniqueViolation), exampleDb\<lparr>nextId := 9\<rparr>)"
    by (simp add: insertLink_def insertFails_def exampleDb_def Let_def)
  have upd: "updateLink 20 (Whole 5) ''user_A'' ''https://b.com'' ''dup1'' exampleDb
      = (Inl (updateFails 20 (Whole 5) ''user_A'' ''https://b.com'' ''dup1'' UniqueViolation),
         exampleDb)"
    by (simp add: updateLink_def updateLink_between_def selectByIdAndUser_def updateWhere_def
        owned_def exampleDb_def Let_def)
  have c: "fst (createLink exampleIsUrl (Some ''user_A'') 20
          \<lparr>url_in = ''https://b.com'', shortCode_in = ''dup1''\<rparr> exampleDb)
       = Failure (message (DrizzleQueryError (insertSql None None)
            [''user_A'', ''dup1'', ''https://b.com''] UniqueViolation))"
    by (simp add: createLink_def noUser_def v ins insert_message_without_unique)
  have e: "fst (editLink exampleIsUrl (Some ''user_A'') 20
          \<lparr>url_in = ''https://b.com'', shortCode_in = ''dup1'', id_in = Whole 5\<rparr> exampleDb)
       = Failure (message (updateFails 20 (Whole 5) ''user_A'' ''https://b.com'' ''dup1''
            UniqueViolation))"
    by (simp add: editLink_def noUser_def v' upd update_message_without_unique)
  have t: "''dup1'' \<in> shortCode ` set (rows exampleDb)"
    by (simp add: exampleDb_def)
  have n1: "Failure (message (DrizzleQueryError (insertSql None None)
            [''user_A'', ''dup1'', ''https://b.com''] UniqueViolation))
       \<noteq> (Failure ''This short code is already in use. Please try another one.'' :: Link ActionResult)"
    by (simp add: message.simps)
  have n2: "Failure (message (updateFails 20 (Whole 5) ''user_A'' ''https://b.com'' ''dup1''
            UniqueViolation))
       \<noteq> (Failure ''This short code is already in use. Please try another one.'' :: Link ActionResult)"
    by (simp add: updateFails_def message.simps)
  show ?thesis
    unfolding c e using t v n1 n2 by (intro conjI) simp_all
qed


section \<open>Ownership\<close>









section \<open>The ownership check and the write\<close>

lemma updateWhere_others:
  "filter (\<lambda>r. \<not> owned i uid r) (rows (snd (updateWhere now i uid newUrl newCode d)))
     = filter (\<lambda>r. \<not> owned i uid r) (rows d)
   \<and> map id_link (rows (snd (updateWhere now i uid newUrl newCode d))) = map id_link (rows d)
   \<and> map userId (rows (snd (updateWhere now i uid newUrl newCode d))) = map userId (rows d)"
proof -
  have "filter (\<lambda>r. \<not> owned i uid r)
      (map (\<lambda>r. if owned i uid r then setFields now newUrl newCode r else r) rs)
      = filter (\<lambda>r. \<not> owned i uid r) rs" for rs
    by (induction rs) (auto simp: owned_def setFields_def)
  then show ?thesis
    by (simp add: updateWhere_def Let_def setFields_def)
qed

lemma selectByIdAndUser_found_int4: "selectByIdAndUser i uid d = Inr found \<Longrightarrow> int4 i"
  by (simp add: selectByIdAndUser_def split: if_splits)

text \<open>
  C7: \<open>updateLink\<close> and \<open>deleteLinkById\<close> run an ownership select and then, as a second
  statement, a write whose predicate matches both id and userId. When the select fails
  or finds no row, no write is issued. When it finds one, then whatever other sessions
  do to the table between the two statements, the write leaves every row that does not
  match both id and userId at the time of the write as it is; the update also leaves
  the id and the userId of every row as they are, and the delete removes exactly the
  rows that match at the time of the write.
\<close>

theorem writes_scoped_to_id_and_user:
  "(selectByIdAndUser i uid d = Inl e \<or> selectByIdAndUser i uid d = Inr [] \<longrightarrow>
      snd (updateLink_between between now i uid newUrl newCode d) = d
      \<and> snd (deleteLinkById_between between i uid d) = d)
   \<and> (selectByIdAndUser i uid d = Inr (x # xs) \<longrightarrow>
      filter (\<lambda>r. \<not> owned i uid r)
          (rows (snd (updateLink_between between now i uid newUrl newCode d)))
        = filter (\<lambda>r. \<not> owned i uid r) (rows (between d))
      \<and> map id_link (rows (snd (updateLink_between between now i uid newUrl newCode d)))
        = map id_link (rows (between d))
      \<and> map userId (rows (snd (updateLink_between between now i uid newUrl newCode d)))
        = map userId (rows (between d))
      \<and> rows (snd (deleteLinkById_between between i uid d))
        = filter (\<lambda>r. \<not> owned i uid r) (rows (between d)))"
proof (intro conjI impI)
  assume "selectByIdAndUser i uid d = Inl e \<or> selectByIdAndUser i uid d = Inr []"
  then show "snd (updateLink_between between now i uid newUrl newCode d) = d"
    and "snd (deleteLinkById_between between i uid d) = d"
    by (auto simp: updateLink_between_def deleteLinkById_between_def)
next
  assume found: "selectByIdAndUser i uid d = Inr (x # xs)"
  then have "int4 i" by (rule selectByIdAndUser_found_int4)
  then show "rows (snd (deleteLinkById_between between i uid d))
      = filter (\<lambda>r. \<not> owned i uid r) (rows (between d))"
    using found by (simp add: deleteLinkById_between_def deleteWhere_def)
  have "snd (updateLink_between between now i uid newUrl newCode d)
      = snd (updateWhere now i uid newUrl newCode (between d))"
    using found
    by (cases "updateWhere now i uid newUrl newCode (between d)")
      (auto simp: updateLink_between_def split: sum.split list.split)
  then show "filter (\<lambda>r. \<not> owned i uid r)
          (rows (snd (updateLink_between between now i uid newUrl newCode d)))
        = filter (\<lambda>r. \<not> owned i uid r) (rows (between d))"
    and "map id_link (rows (snd (updateLink_between between now i uid newUrl newCode d)))
        = map id_link (rows (between d))"
    and "map userId (rows (snd (updateLink_between between now i uid newUrl newCode d)))
        = map userId (rows (between d))"
    using updateWhere_others [of i uid now newUrl newCode "between d"] by simp_all
qed

lemma otherSessionDeletes_example:
  "rows (otherSessionDeletes exampleDb) = [rows exampleDb ! 1, rows exampleDb ! 2]"
  by (simp add: otherSessionDeletes_def deleteWhere_def owned_def exampleDb_def)

theorem writes_scoped_to_id_and_user_witness:
  "selectByIdAndUser (Whole 7) ''user_A'' exampleDb = Inr [rows exampleDb ! 2]
   \<and> rows (snd (deleteLinkById_between otherSessionDeletes (Whole 7) ''user_A'' exampleDb))
       = [rows exampleDb ! 1]
   \<and> selectByIdAndUser (Whole 5) ''user_B'' exampleDb = Inr []
   \<and> snd (deleteLinkById_between otherSessionDeletes (Whole 5) ''user_B'' exampleDb) = exampleDb"
proof -
  have s: "selectByIdAndUser (Whole 7) ''user_A'' exampleDb = Inr [rows exampleDb ! 2]"
    "selectByIdAndUser (Whole 5) ''user_B'' exampleDb = Inr []"
    by (simp_all add: selectByIdAndUser_def owned_def exampleDb_def)
  have f: "filter (\<lambda>r. \<not> owned (Whole 7) ''user_A'' r) (rows (otherSessionDeletes exampleDb))
      = [rows exampleDb ! 1]"
    by (simp add: otherSessionDeletes_example) (simp add: owned_def exampleDb_def)
  from writes_scoped_to_id_and_user [where i = "Whole 7" and uid = "''user_A''"
      and d = exampleDb and between = otherSessionDeletes and x = "rows exampleDb ! 2" and xs = "[]"]
    writes_scoped_to_id_and_user [where i = "Whole 5" and uid = "''user_B''" and d = exampleDb
      and between = otherSessionDeletes]
    s f
  show ?thesis by simp
qed

theorem ownership_check_then_write_counterexample:
  "rows (otherSessionDeletes exampleDb) = [rows exampleDb ! 1, rows exampleDb ! 2]
   \<and> deleteLinkById_between otherSessionDeletes (Whole 5) ''user_A'' exampleDb
     = (Inr True, otherSessionDeletes exampleDb)
   \<and> deleteLinkById (Whole 5) ''user_A'' (otherSessionDeletes exampleDb)
     = (Inr False, otherSessionDeletes exampleDb)"
proof -
  have found: "selectByIdAndUser (Whole 5) ''user_A'' exampleDb = Inr [rows exampleDb ! 0]"
    by (simp add: selectByIdAndUser_def owned_def exampleDb_def)
  have gone: "selectByIdAndUser (Whole 5) ''user_A'' (otherSessionDeletes exampleDb) = Inr []"
    by (simp add: selectByIdAndUser_def otherSessionDeletes_example) (simp add: owned_def exampleDb_def)
  have again: "deleteWhere (Whole 5) ''user_A'' (otherSessionDeletes exampleDb)
      = (Inr (), otherSessionDeletes exampleDb)"
    by (simp add: deleteWhere_def otherSessionDeletes_def owned_def exampleDb_def)
  show ?thesis
    using otherSessionDeletes_example
    by (simp add: deleteLinkById_def deleteLinkById_between_def found gone again)
qed

section \<open>What the redirect route throws\<close>












end
